theory Spec2Isabelle
  imports Complex_Main "HOL-Library.Char_ord" "HOL-Library.List_Lexorder"
begin

section \<open>JavaScript values used by the components\<close>

text \<open>
  Strings are modelled as \<^typ>\<open>string\<close> (lists of 8-bit characters); the model covers
  text whose UTF-16 code units are single bytes, the arrow of the audit log apart, which
  is spelled as its three UTF-8 bytes. A JavaScript number is an integer or \<open>NaN\<close>
  (what \<open>parseInt\<close> can return); integers are unbounded, so the loss of precision of
  doubles beyond \<open>2^53\<close> is outside the model.
\<close>

datatype number = NaN | Fin int

text \<open>\<open>x || 0\<close> on a number: \<open>NaN\<close> and \<open>0\<close> are falsy.\<close>

fun num_or0 :: "number \<Rightarrow> int" where
  "num_or0 NaN = 0"
| "num_or0 (Fin n) = n"

text \<open>\<open>s || d\<close> on a string: only the empty string is falsy.\<close>

definition str_or :: "string \<Rightarrow> string \<Rightarrow> string" where
  "str_or s d = (if s = [] then d else s)"

text \<open>\<open>a !== b\<close> on numbers: \<open>NaN\<close> differs from every number, itself included.\<close>

fun num_neq :: "number \<Rightarrow> number \<Rightarrow> bool" where
  "num_neq (Fin a) (Fin b) = (a \<noteq> b)"
| "num_neq _ _ = True"

definition is_ws :: "char \<Rightarrow> bool" where
  "is_ws c = (c = CHR '' '' \<or> c = CHR 0x09 \<or> c = CHR 0x0A \<or> c = CHR 0x0B
               \<or> c = CHR 0x0C \<or> c = CHR 0x0D)"

text \<open>
  \<open>String.prototype.trim\<close>: white space (here the six ASCII white-space characters)
  is removed at both ends.
\<close>

definition trim :: "string \<Rightarrow> string" where
  "trim s = rev (dropWhile is_ws (rev (dropWhile is_ws s)))"

text \<open>\<open>s.split(' ')[0]\<close>: the text before the first space, all of \<open>s\<close> when it has none.\<close>

definition split_space_0 :: "string \<Rightarrow> string" where
  "split_space_0 s = takeWhile (\<lambda>c. c \<noteq> CHR '' '') s"

text \<open>\<open>s.substring(0, n)\<close> and \<open>s.startsWith(p)\<close>.\<close>

definition substring0 :: "nat \<Rightarrow> string \<Rightarrow> string" where
  "substring0 n s = take n s"

definition startsWith :: "string \<Rightarrow> string \<Rightarrow> bool" where
  "startsWith s p = (take (length p) s = p)"

text \<open>\<open>xs.join(sep)\<close> on an array of strings.\<close>

fun join :: "string \<Rightarrow> string list \<Rightarrow> string" where
  "join sep [] = []"
| "join sep [x] = x"
| "join sep (x # y # ys) = x @ sep @ join sep (y # ys)"

text \<open>Decimal rendering of a number, as a template literal or \<open>join\<close> produces it.\<close>

function show_nat :: "nat \<Rightarrow> string" where
  "show_nat n = (if n < 10 then [''0123456789'' ! n]
                 else show_nat (n div 10) @ [''0123456789'' ! (n mod 10)])"
  by pat_completeness auto
termination
  by (relation "measure (\<lambda>n. n)") auto

declare show_nat.simps [simp del]

fun show_number :: "number \<Rightarrow> string" where
  "show_number NaN = ''NaN''"
| "show_number (Fin n) = (if n < 0 then CHR ''-'' # show_nat (nat (- n)) else show_nat (nat n))"

text \<open>
  \<open>parseInt(s)\<close> without a radix: leading white space is skipped, a sign is read, the
  prefix \<open>0x\<close> or \<open>0X\<close> selects radix 16, and the longest run of digits is the value;
  no digit at all gives \<open>NaN\<close>.
\<close>

definition digit_val :: "char \<Rightarrow> nat" where
  "digit_val c =
     (let k = (of_char c :: nat)
      in if 48 \<le> k \<and> k \<le> 57 then k - 48
         else if 97 \<le> k \<and> k \<le> 122 then k - 87
         else if 65 \<le> k \<and> k \<le> 90 then k - 55
         else 36)"

definition is_digit :: "nat \<Rightarrow> char \<Rightarrow> bool" where
  "is_digit R c = (digit_val c < R)"

definition parseInt :: "string \<Rightarrow> number" where
  "parseInt str =
     (let s0 = dropWhile is_ws str;
          sgn = (if take 1 s0 = ''-'' then - 1 else (1 :: int));
          s1 = (if take 1 s0 = ''+'' \<or> take 1 s0 = ''-'' then drop 1 s0 else s0);
          hex = (take 2 s1 = ''0x'' \<or> take 2 s1 = ''0X'');
          R = (if hex then 16 else (10 :: nat));
          s2 = (if hex then drop 2 s1 else s1);
          Z = takeWhile (is_digit R) s2
      in if Z = [] then NaN
         else Fin (sgn * int (foldl (\<lambda>acc c. acc * R + digit_val c) 0 Z)))"

text \<open>
  \<open>a.localeCompare(b)\<close>, modelled as the comparison of the character codes, which is
  the order of \<open>YYYY-MM-DD\<close> strings.
\<close>

definition localeCompare :: "string \<Rightarrow> string \<Rightarrow> int" where
  "localeCompare a b = (if a < b then - 1 else if a = b then 0 else 1)"

text \<open>
  \<open>Array.prototype.sort(cmp)\<close> is a stable sort: an element goes before the first
  element it does not compare greater than, and the elements are inserted from the last
  to the first, so that equal elements keep their order.
\<close>

fun insert_sorted :: "('a \<Rightarrow> 'a \<Rightarrow> int) \<Rightarrow> 'a \<Rightarrow> 'a list \<Rightarrow> 'a list" where
  "insert_sorted cmp x [] = [x]"
| "insert_sorted cmp x (y # ys) =
     (if cmp x y \<le> 0 then x # y # ys else y # insert_sorted cmp x ys)"

definition js_sort :: "('a \<Rightarrow> 'a \<Rightarrow> int) \<Rightarrow> 'a list \<Rightarrow> 'a list" where
  "js_sort cmp xs = foldr (insert_sorted cmp) xs []"

text \<open>A \<open>Set\<close> keeps its elements in insertion order; \<open>add\<close> ignores a present element.\<close>

definition Set_add :: "'a \<Rightarrow> 'a list \<Rightarrow> 'a list" where
  "Set_add x s = (if x \<in> set s then s else s @ [x])"

text \<open>
  A \<open>Map\<close> keeps its keys in insertion order; \<open>set\<close> replaces the value of a present key
  in place and appends a new key.
\<close>

primrec Map_set :: "'k \<Rightarrow> 'v \<Rightarrow> ('k \<times> 'v) list \<Rightarrow> ('k \<times> 'v) list" where
  "Map_set k v [] = [(k, v)]"
| "Map_set k v (p # ps) = (if fst p = k then (k, v) # ps else p # Map_set k v ps)"

definition Map_has :: "'k \<Rightarrow> ('k \<times> 'v) list \<Rightarrow> bool" where
  "Map_has k m = (k \<in> fst ` set m)"

definition Map_get :: "'k \<Rightarrow> ('k \<times> 'v) list \<Rightarrow> 'v option" where
  "Map_get k m = map_of m k"

definition Map_values :: "('k \<times> 'v) list \<Rightarrow> 'v list" where
  "Map_values m = map snd m"

section \<open>Data model\<close>

text \<open>
  \<open>Category\<close>, \<open>ProcessType\<close> and \<open>UnitType\<close> are string unions; \<open>batchNo\<close> and
  \<open>manpower\<close> are optional (a new plan is created without them).
\<close>

record ProductionEntry =
  entry_id :: string
  date :: string
  category :: string
  process :: string
  productName :: string
  planQuantity :: number
  actualQuantity :: number
  unit :: string
  batchNo :: "string option"
  manpower :: "number option"
  lastUpdatedBy :: string
  updatedAt :: string

record OffDay =
  od_date :: string
  description :: string

datatype Role = admin | manager | planner | operator

record User =
  user_id :: string
  name :: string
  username :: string
  email :: string
  role :: Role
  password :: string

record LogEntry =
  userId :: string
  userName :: string
  action :: string
  details :: string

text \<open>
  Modelled from the spec: \<open>StorageService\<close> is not among the sources. The record store
  holds the production entries, the user list and the append-only audit log;
  \<open>getProductionData\<close> and \<open>getUsers\<close> read a collection, \<open>saveProductionData\<close> and
  \<open>saveUsers\<close> replace it, and \<open>addLog\<close> appends one line.
\<close>

record store =
  productionData :: "ProductionEntry list"
  users :: "User list"
  logs :: "LogEntry list"

definition saveUsers :: "User list \<Rightarrow> store \<Rightarrow> store" where
  "saveUsers us st = st\<lparr>users := us\<rparr>"

definition saveProductionData :: "ProductionEntry list \<Rightarrow> store \<Rightarrow> store" where
  "saveProductionData d st = st\<lparr>productionData := d\<rparr>"

definition addLog :: "LogEntry \<Rightarrow> store \<Rightarrow> store" where
  "addLog l st = st\<lparr>logs := logs st @ [l]\<rparr>"

text \<open>
  The two ways a submission ends without the success notification: an early return after
  a notification or message (the off-day lock, a missing field), and a thrown \<open>Error\<close>
  that the handler catches and shows.
\<close>

datatype error = ValidationError string | Thrown string

text \<open>
  The clock: \<open>Date.now().toString()\<close>, \<open>getDbTimestamp()\<close> and
  \<open>new Date().toISOString()\<close>.
\<close>

record clock =
  now_id :: string
  dbTimestamp :: string
  isoString :: string

section \<open>The entry modal (\<open>InputModal\<close>)\<close>

datatype Tab = PlanTab | ActualTab

record modal =
  tab :: Tab
  m_date :: string
  m_category :: string
  m_process :: string
  m_productName :: string
  m_quantity :: string
  m_unit :: string
  m_manpower :: string
  m_batchNo :: string
  selectedPlanId :: string
  editEntry :: "ProductionEntry option"

text \<open>\<open>(date || '').trim().split(' ')[0]\<close>\<close>

definition normalizedDate :: "string \<Rightarrow> string" where
  "normalizedDate d = split_space_0 (trim (str_or d ''''))"

definition currentOffDay :: "OffDay list \<Rightarrow> string \<Rightarrow> OffDay option" where
  "currentOffDay offDays d =
     (let inputDate = normalizedDate d
      in find (\<lambda>od. normalizedDate (od_date od) = inputDate) offDays)"

text \<open>The candidate list of the Actual tab: the stored plans of the chosen day.\<close>

definition plans :: "ProductionEntry list \<Rightarrow> string \<Rightarrow> ProductionEntry list" where
  "plans all d = filter (\<lambda>p. normalizedDate (date p) = normalizedDate d) all"

definition arrow :: string where
  "arrow = [CHR 0xE2, CHR 0x86, CHR 0x92]"

definition change :: "string \<Rightarrow> string \<Rightarrow> string \<Rightarrow> string" where
  "change field old new = field @ '' ('' @ old @ '' '' @ arrow @ '' '' @ new @ '')''"

definition manpower_or0 :: "ProductionEntry \<Rightarrow> number" where
  "manpower_or0 e = (case manpower e of None \<Rightarrow> Fin 0 | Some n \<Rightarrow> Fin (num_or0 n))"

definition batchNo_or :: "ProductionEntry \<Rightarrow> string \<Rightarrow> string" where
  "batchNo_or e d = (case batchNo e of None \<Rightarrow> d | Some b \<Rightarrow> str_or b d)"

definition changes :: "modal \<Rightarrow> ProductionEntry \<Rightarrow> string list" where
  "changes m e =
     (let nd = normalizedDate (m_date m);
          newQty = parseInt (str_or (m_quantity m) ''0'');
          newManpower = parseInt (str_or (m_manpower m) ''0'')
      in (if date e \<noteq> nd then [change ''Date'' (date e) nd] else [])
       @ (if productName e \<noteq> m_productName m
          then [change ''Product'' (productName e) (m_productName m)] else [])
       @ (if category e \<noteq> m_category m
          then [change ''Category'' (category e) (m_category m)] else [])
       @ (if process e \<noteq> m_process m
          then [change ''Process'' (process e) (m_process m)] else [])
       @ (if unit e \<noteq> m_unit m then [change ''Unit'' (unit e) (m_unit m)] else [])
       @ (if tab m = PlanTab
          then (if num_neq (planQuantity e) newQty
                then [change ''Plan Qty'' (show_number (planQuantity e)) (show_number newQty)]
                else [])
          else (if num_neq (actualQuantity e) newQty
                then [change ''Actual Qty'' (show_number (actualQuantity e))
                        (show_number newQty)]
                else []))
       @ (if num_neq (manpower_or0 e) newManpower
          then [change ''Manpower'' (show_number (manpower_or0 e)) (show_number newManpower)]
          else [])
       @ (if batchNo_or e '''' \<noteq> m_batchNo m
          then [change ''Batch'' (batchNo_or e ''None'') (str_or (m_batchNo m) ''None'')]
          else []))"

definition edited :: "clock \<Rightarrow> User \<Rightarrow> modal \<Rightarrow> ProductionEntry \<Rightarrow> ProductionEntry" where
  "edited clk user m p =
     (let newQty = parseInt (str_or (m_quantity m) ''0'');
          newManpower = parseInt (str_or (m_manpower m) ''0'')
      in p\<lparr>date := normalizedDate (m_date m),
            category := m_category m, process := m_process m,
            productName := m_productName m, unit := m_unit m,
            planQuantity := (if tab m = PlanTab then newQty else planQuantity p),
            actualQuantity := (if tab m = ActualTab then newQty else actualQuantity p),
            batchNo := Some (m_batchNo m), manpower := Some newManpower,
            lastUpdatedBy := user_id user, updatedAt := dbTimestamp clk\<rparr>)"

definition logDetails :: "modal \<Rightarrow> ProductionEntry \<Rightarrow> string" where
  "logDetails m e =
     (if length (changes m e) > 0
      then ''Edited '' @ m_productName m @ '' ('' @ process e @ '') on '' @ date e @ '': ''
             @ join '', '' (changes m e)
      else ''Updated record for '' @ m_productName m @ '' ('' @ process e @ '') on ''
             @ date e @ '' (No values changed)'')"

definition recorded :: "clock \<Rightarrow> User \<Rightarrow> modal \<Rightarrow> ProductionEntry \<Rightarrow> ProductionEntry" where
  "recorded clk user m p =
     p\<lparr>actualQuantity := parseInt (str_or (m_quantity m) ''0''),
       batchNo := Some (m_batchNo m),
       manpower := Some (parseInt (str_or (m_manpower m) ''0'')),
       lastUpdatedBy := user_id user, updatedAt := dbTimestamp clk\<rparr>"

text \<open>
  \<open>handleSubmit\<close> of the modal. The result pairs the outcome with the store after the
  call: \<open>Inr ()\<close> is the success notification, \<open>Inl\<close> a rejection or a caught error.
\<close>


definition handleSubmit ::
  "clock \<Rightarrow> User \<Rightarrow> OffDay list \<Rightarrow> modal \<Rightarrow> store \<Rightarrow> (error + unit) \<times> store" where
  "handleSubmit clk user offDays m st =
     (let nd = normalizedDate (m_date m)
      in if editEntry m = None \<and> currentOffDay offDays (m_date m) \<noteq> None then
           (Inl (ValidationError (''ENTRY RESTRICTED: Today is ''
                   @ description (the (currentOffDay offDays (m_date m))))), st)
         else
           (let currentData = productionData st
            in case editEntry m of
                 Some e \<Rightarrow>
                   (let updated = map (\<lambda>p. if entry_id p = entry_id e
                                           then edited clk user m p else p) currentData;
                        st1 = saveProductionData updated st;
                        st2 = addLog \<lparr>userId = user_id user, userName = name user,
                                 action = ''EDIT_RECORD'', details = logDetails m e\<rparr> st1
                    in (Inr (), st2))
               | None \<Rightarrow>
                   (if tab m = PlanTab then
                      (let newEntry = \<lparr>entry_id = now_id clk, date = nd,
                              category = m_category m, process = m_process m,
                              productName = m_productName m,
                              planQuantity = parseInt (str_or (m_quantity m) ''0''),
                              actualQuantity = Fin 0, unit = m_unit m,
                              batchNo = None, manpower = None,
                              lastUpdatedBy = user_id user, updatedAt = dbTimestamp clk\<rparr>;
                           st1 = saveProductionData (currentData @ [newEntry]) st;
                           st2 = addLog \<lparr>userId = user_id user, userName = name user,
                                   action = ''CREATE_PLAN'',
                                   details = ''Planned '' @ show_number (planQuantity newEntry)
                                     @ '' '' @ unit newEntry @ '' for ''
                                     @ productName newEntry @ '' ('' @ nd @ '')''\<rparr> st1
                       in (Inr (), st2))
                    else if selectedPlanId m = [] then
                      (Inl (Thrown ''Please select a plan''), st)
                    else
                      (let targetPlan = find (\<lambda>p. entry_id p = selectedPlanId m) currentData;
                           updated = map (\<lambda>p. if entry_id p = selectedPlanId m
                                               then recorded clk user m p else p) currentData;
                           st1 = saveProductionData updated st;
                           st2 = addLog \<lparr>userId = user_id user, userName = name user,
                                   action = ''RECORD_ACTUAL'',
                                   details = ''Recorded actual output of '' @ m_quantity m
                                     @ '' ''
                                     @ (case targetPlan of None \<Rightarrow> ''KG''
                                        | Some t \<Rightarrow> str_or (unit t) ''KG'')
                                     @ '' for ''
                                     @ (case targetPlan of None \<Rightarrow> ''product''
                                        | Some t \<Rightarrow> str_or (productName t) ''product'')\<rparr>
                                   st1
                       in (Inr (), st2)))))"

section \<open>The plan page (\<open>InputPlan\<close>)\<close>

record formData =
  fd_date :: string
  fd_category :: string
  fd_process :: string
  fd_productName :: string
  fd_quantity :: string
  fd_unit :: string

text \<open>Here the off-day is looked up by the raw date: \<open>od.date === formData.date\<close>.\<close>

definition InputPlan_currentOffDay :: "OffDay list \<Rightarrow> string \<Rightarrow> OffDay option" where
  "InputPlan_currentOffDay offDays d = find (\<lambda>od. od_date od = d) offDays"

definition InputPlan_handleSubmit ::
  "clock \<Rightarrow> User \<Rightarrow> OffDay list \<Rightarrow> formData \<Rightarrow> store \<Rightarrow> (error + unit) \<times> store" where
  "InputPlan_handleSubmit clk user offDays fd st =
     (if InputPlan_currentOffDay offDays (fd_date fd) \<noteq> None then
        (Inl (ValidationError (''Selected date is an Off Day: ''
                @ description (the (InputPlan_currentOffDay offDays (fd_date fd))) @ ''.'')), st)
      else if fd_productName fd = [] \<or> fd_quantity fd = [] then
        (Inl (ValidationError ''Please fill all required fields.''), st)
      else
        (let entries = productionData st;
             newEntry = \<lparr>entry_id = now_id clk, date = fd_date fd,
                 category = fd_category fd, process = fd_process fd,
                 productName = fd_productName fd,
                 planQuantity = parseInt (fd_quantity fd), actualQuantity = Fin 0,
                 unit = fd_unit fd, batchNo = None, manpower = None,
                 lastUpdatedBy = user_id user, updatedAt = isoString clk\<rparr>;
             st1 = saveProductionData (entries @ [newEntry]) st;
             st2 = addLog \<lparr>userId = user_id user, userName = name user,
                     action = ''CREATE_PLAN'',
                     details = ''Planned '' @ show_number (planQuantity newEntry) @ '' ''
                       @ unit newEntry @ '' for '' @ productName newEntry @ '' on ''
                       @ date newEntry\<rparr> st1
         in (Inr (), st2)))"

section \<open>The dashboard (\<open>Dashboard\<close>)\<close>

record bucket =
  process_b :: string
  Plan :: int
  Actual :: int

text \<open>
  A division whose divisor is zero is marked \<open>None\<close> (JavaScript would give
  \<open>Infinity\<close> or \<open>NaN\<close>); quotients are exact, not rounded to doubles.
\<close>

definition js_div :: "real \<Rightarrow> real \<Rightarrow> real option" where
  "js_div a b = (if b = 0 then None else Some (a / b))"

record stats =
  plan :: int
  actual :: int
  efficiency :: "real option"

record totals =
  selectedMonthPlan :: int
  selectedMonthActual :: int
  selectedMonthProcessMap :: "(string \<times> bucket) list"

definition relevant :: "ProductionEntry list \<Rightarrow> string \<Rightarrow> ProductionEntry list" where
  "relevant pd cat = filter (\<lambda>d. category d = cat \<and> date d \<noteq> []) pd"

text \<open>
  The map starts with one zero bucket for each entry of \<open>PROCESSES\<close>. The constant
  comes from \<open>constants.ts\<close>, which is not among the sources, so it is a parameter.
\<close>

definition initProcessMap :: "string list \<Rightarrow> (string \<times> bucket) list" where
  "initProcessMap PROCESSES =
     fold (\<lambda>proc m. Map_set proc \<lparr>process_b = proc, Plan = 0, Actual = 0\<rparr> m) PROCESSES []"

text \<open>The body of \<open>relevant.forEach\<close>.\<close>

definition accumulate :: "string \<Rightarrow> ProductionEntry \<Rightarrow> totals \<Rightarrow> totals" where
  "accumulate selectedMonth d t =
     (let dateStr = substring0 7 (trim (str_or (date d) ''''))
      in if dateStr = selectedMonth then
           (let t1 = t\<lparr>selectedMonthPlan := selectedMonthPlan t + num_or0 (planQuantity d),
                       selectedMonthActual := selectedMonthActual t
                                               + num_or0 (actualQuantity d)\<rparr>;
                procName = str_or (process d) ''Other''
            in if Map_has procName (selectedMonthProcessMap t1) then
                 (let p = the (Map_get procName (selectedMonthProcessMap t1))
                  in t1\<lparr>selectedMonthProcessMap :=
                          Map_set procName
                            (p\<lparr>Plan := Plan p + num_or0 (planQuantity d),
                               Actual := Actual p + num_or0 (actualQuantity d)\<rparr>)
                            (selectedMonthProcessMap t1)\<rparr>)
               else t1)
         else t)"

definition monthTotals :: "string list \<Rightarrow> ProductionEntry list \<Rightarrow> string \<Rightarrow> string \<Rightarrow> totals" where
  "monthTotals PROCESSES pd cat selectedMonth =
     fold (accumulate selectedMonth) (relevant pd cat)
       \<lparr>selectedMonthPlan = 0, selectedMonthActual = 0,
        selectedMonthProcessMap = initProcessMap PROCESSES\<rparr>"

definition filteredData :: "ProductionEntry list \<Rightarrow> string \<Rightarrow> ProductionEntry list" where
  "filteredData pd cat =
     js_sort (\<lambda>a b. localeCompare (str_or (date b) '''') (str_or (date a) ''''))
       (relevant pd cat)"

definition selectedMonthStats ::
  "string list \<Rightarrow> ProductionEntry list \<Rightarrow> string \<Rightarrow> string \<Rightarrow> stats" where
  "selectedMonthStats PROCESSES pd cat selectedMonth =
     (let t = monthTotals PROCESSES pd cat selectedMonth
      in \<lparr>plan = selectedMonthPlan t, actual = selectedMonthActual t,
          efficiency = (if selectedMonthPlan t > 0
                        then map_option (\<lambda>q. q * 100)
                               (js_div (real_of_int (selectedMonthActual t))
                                       (real_of_int (selectedMonthPlan t)))
                        else Some 0)\<rparr>)"

definition chartData ::
  "string list \<Rightarrow> ProductionEntry list \<Rightarrow> string \<Rightarrow> string \<Rightarrow> bucket list" where
  "chartData PROCESSES pd cat selectedMonth =
     Map_values (selectedMonthProcessMap (monthTotals PROCESSES pd cat selectedMonth))"

record dayGroup =
  date_g :: string
  totalActualForDate :: int
  entries :: "ProductionEntry list"
  isOffDay :: bool
  offDayName :: string

definition dateKeyOf :: "string \<Rightarrow> string" where
  "dateKeyOf d = substring0 10 (trim d)"

definition filteredEntries :: "ProductionEntry list \<Rightarrow> string \<Rightarrow> ProductionEntry list" where
  "filteredEntries baseData selectedMonth =
     filter (\<lambda>d. date d \<noteq> [] \<and> startsWith (trim (date d)) selectedMonth) baseData"

definition filteredOffDays :: "OffDay list \<Rightarrow> string \<Rightarrow> OffDay list" where
  "filteredOffDays offDays selectedMonth =
     filter (\<lambda>od. od_date od \<noteq> [] \<and> startsWith (trim (od_date od)) selectedMonth) offDays"

definition sortedDates :: "ProductionEntry list \<Rightarrow> OffDay list \<Rightarrow> string list" where
  "sortedDates fe fo =
     (let dates0 = fold (\<lambda>d s. if date d \<noteq> [] then Set_add (dateKeyOf (date d)) s else s)
                     fe [];
          dates = fold (\<lambda>od s. if od_date od \<noteq> [] then Set_add (dateKeyOf (od_date od)) s
                                 else s) fo dates0
      in js_sort (\<lambda>a b. localeCompare (str_or b '''') (str_or a '''')) dates)"

definition dailyGroups :: "ProductionEntry list \<Rightarrow> OffDay list \<Rightarrow> string \<Rightarrow> dayGroup list" where
  "dailyGroups baseData offDays selectedMonth =
     (let fe = filteredEntries baseData selectedMonth;
          fo = filteredOffDays offDays selectedMonth
      in map (\<lambda>dateKey.
            (let entriesForDate =
                   filter (\<lambda>d. date d \<noteq> [] \<and> dateKeyOf (date d) = dateKey) fe;
                 offDayInfo =
                   find (\<lambda>od. od_date od \<noteq> [] \<and> dateKeyOf (od_date od) = dateKey) fo;
                 total = foldl (\<lambda>sum entry. sum + num_or0 (actualQuantity entry)) 0
                           entriesForDate
             in \<lparr>date_g = dateKey, totalActualForDate = total, entries = entriesForDate,
                 isOffDay = (offDayInfo \<noteq> None),
                 offDayName = (case offDayInfo of None \<Rightarrow> ''''
                               | Some od \<Rightarrow> str_or (description od) '''')\<rparr>))
           (sortedDates fe fo))"

text \<open>
  \<open>downloadCSV\<close>: a row is an array of strings, numbers and absent values;
  \<open>join\<close> renders an absent value as the empty string.
\<close>

datatype cell = S string | N number | Undefined

fun cell_text :: "cell \<Rightarrow> string" where
  "cell_text (S s) = s"
| "cell_text (N n) = show_number n"
| "cell_text Undefined = []"

definition headers :: "string list" where
  "headers = [''Date'', ''Status'', ''Process'', ''Product'', ''Plan'', ''Actual'', ''Unit'',
              ''Batch No'', ''Manpower'']"

definition groupRows :: "dayGroup \<Rightarrow> cell list list" where
  "groupRows g =
     (if length (entries g) = 0 then
        [[S (date_g g), S (str_or (offDayName g) ''Off Day''), S ''-'', S ''-'',
          N (Fin 0), N (Fin 0), S ''-'', S ''-'', N (Fin 0)]]
      else
        map (\<lambda>d. [S (date d),
                   S (if isOffDay g then ''Holiday ('' @ offDayName g @ '')'' else ''Normal''),
                   S (process d), S (productName d), N (planQuantity d),
                   N (actualQuantity d), S (str_or (unit d) ''KG''),
                   (case batchNo d of None \<Rightarrow> Undefined | Some b \<Rightarrow> S b),
                   (case manpower d of None \<Rightarrow> Undefined | Some n \<Rightarrow> N n)])
          (entries g))"

definition csvLines :: "dayGroup list \<Rightarrow> string list" where
  "csvLines groups =
     join '','' headers # map (\<lambda>r. join '','' (map cell_text r)) (concat (map groupRows groups))"

definition csvContent :: "dayGroup list \<Rightarrow> string" where
  "csvContent groups = ''data:text/csv;charset=utf-8,'' @ join [CHR 0x0A] (csvLines groups)"

section \<open>The user page (\<open>UserManagement\<close>)\<close>

definition toLowerCase :: "string \<Rightarrow> string" where
  "toLowerCase s =
     map (\<lambda>c. if 65 \<le> (of_char c :: nat) \<and> (of_char c :: nat) \<le> 90
              then char_of ((of_char c :: nat) + 32) else c) s"

definition roleName :: "Role \<Rightarrow> string" where
  "roleName r = (case r of admin \<Rightarrow> ''admin'' | manager \<Rightarrow> ''manager''
                 | planner \<Rightarrow> ''planner'' | operator \<Rightarrow> ''operator'')"

definition handleAddUser :: "clock \<Rightarrow> User \<Rightarrow> User \<Rightarrow> store \<Rightarrow> (error + unit) \<times> store" where
  "handleAddUser clk currentUser newUser st =
     (if list_ex (\<lambda>u. toLowerCase (username u) = toLowerCase (username newUser)) (users st) then
        (Inl (ValidationError ''Username already exists!''), st)
      else
        (let u = newUser\<lparr>user_id := now_id clk\<rparr>;
             updated = users st @ [u];
             st1 = saveUsers updated st;
             st2 = addLog \<lparr>userId = user_id currentUser, userName = name currentUser,
                     action = ''ADD_USER'',
                     details = ''Created new user account: '' @ name u @ '' (''
                       @ roleName (role u) @ '')''\<rparr> st1
         in (Inr (), st2)))"

text \<open>\<open>handleDelete\<close>; \<open>confirm\<close> is the answer to the confirmation dialog.\<close>

definition handleDelete :: "bool \<Rightarrow> User \<Rightarrow> string \<Rightarrow> store \<Rightarrow> store" where
  "handleDelete confirm currentUser i st =
     (if confirm then
        (let target = find (\<lambda>u. user_id u = i) (users st);
             updated = filter (\<lambda>u. user_id u \<noteq> i) (users st);
             st1 = saveUsers updated st
         in addLog \<lparr>userId = user_id currentUser, userName = name currentUser,
               action = ''DELETE_USER'',
               details = ''Removed user account: ''
                 @ (case target of None \<Rightarrow> ''undefined'' | Some t \<Rightarrow> name t) @ '' (@''
                 @ (case target of None \<Rightarrow> ''undefined'' | Some t \<Rightarrow> username t)
                 @ '')''\<rparr> st1)
      else st)"

text \<open>
  The delete button in the row of \<open>u\<close> is disabled for the only admin; a disabled
  button fires no click, which is the result \<open>None\<close>.
\<close>

definition deleteDisabled :: "User list \<Rightarrow> User \<Rightarrow> bool" where
  "deleteDisabled us u = (role u = admin \<and> length (filter (\<lambda>x. role x = admin) us) \<le> 1)"

definition clickDelete :: "bool \<Rightarrow> User \<Rightarrow> User \<Rightarrow> store \<Rightarrow> store option" where
  "clickDelete confirm currentUser u st =
     (if deleteDisabled (users st) u then None
      else Some (handleDelete confirm currentUser (user_id u) st))"

text \<open>
  The state of the submit button of the modal:
  \<open>disabled={isSubmitting || (!editEntry && !!currentOffDay)}\<close>.
\<close>

definition submitDisabled :: "bool \<Rightarrow> OffDay list \<Rightarrow> modal \<Rightarrow> bool" where
  "submitDisabled isSubmitting offDays m =
     (isSubmitting \<or> (editEntry m = None \<and> currentOffDay offDays (m_date m) \<noteq> None))"

section \<open>Notions used to state the properties\<close>

text \<open>
  The audit diff as the specification words it: the fields it names, in the order of the
  log line, with the prior value of each (an absent manpower counts as \<open>0\<close>, an absent
  batch as the empty text, as the form shows them), its new value, and how a value is
  shown. A field has changed when the two values differ.
\<close>

datatype field = DateF | ProductF | CategoryF | ProcessF | UnitF | QuantityF | ManpowerF | BatchF









text \<open>The entries of a category that count for a month, and the process name they count under.\<close>

definition inMonth :: "string \<Rightarrow> ProductionEntry \<Rightarrow> bool" where
  "inMonth selectedMonth d = (substring0 7 (trim (str_or (date d) [])) = selectedMonth)"

definition monthEntries :: "ProductionEntry list \<Rightarrow> string \<Rightarrow> string \<Rightarrow> ProductionEntry list" where
  "monthEntries pd cat selectedMonth = filter (inMonth selectedMonth) (relevant pd cat)"

definition procNameOf :: "ProductionEntry \<Rightarrow> string" where
  "procNameOf d = str_or (process d) ''Other''"

definition planOf :: "ProductionEntry \<Rightarrow> int" where
  "planOf d = num_or0 (planQuantity d)"

definition actualOf :: "ProductionEntry \<Rightarrow> int" where
  "actualOf d = num_or0 (actualQuantity d)"

text \<open>Adding to the two sums of a bucket, and the bucket a process starts with.\<close>

definition addTo :: "int \<Rightarrow> int \<Rightarrow> bucket \<Rightarrow> bucket" where
  "addTo p a b = b\<lparr>Plan := Plan b + p, Actual := Actual b + a\<rparr>"

definition zeroBucket :: "string \<Rightarrow> bucket" where
  "zeroBucket proc = \<lparr>process_b = proc, Plan = 0, Actual = 0\<rparr>"

text \<open>
  The lines of the export that a day group contributes, and the line of one entry as the
  specification lists its columns.
\<close>

definition groupLines :: "dayGroup \<Rightarrow> string list" where
  "groupLines g = map (\<lambda>r. join '','' (map cell_text r)) (groupRows g)"

definition entryLine :: "dayGroup \<Rightarrow> ProductionEntry \<Rightarrow> string" where
  "entryLine g d =
     date d @ '','' @ (if isOffDay g then ''Holiday ('' @ offDayName g @ '')'' else ''Normal'')
       @ '','' @ process d @ '','' @ productName d @ '','' @ show_number (planQuantity d)
       @ '','' @ show_number (actualQuantity d) @ '','' @ str_or (unit d) ''KG'' @ '',''
       @ (case batchNo d of None \<Rightarrow> [] | Some b \<Rightarrow> b) @ '',''
       @ (case manpower d of None \<Rightarrow> [] | Some n \<Rightarrow> show_number n)"

text \<open>
  Runs of the user page. An action is the submission of the new-user form or a click on
  the delete button in the row of a user; a click on a disabled button changes nothing.
  A run is \<open>None\<close> when an action cannot occur: the row of the click is not in the list,
  or the clock gives an id that is already in use.
\<close>

definition adminCount :: "User list \<Rightarrow> nat" where
  "adminCount us = length (filter (\<lambda>x. role x = admin) us)"

datatype uaction = AddUser clock User | ClickDelete bool User

fun ustep :: "User \<Rightarrow> uaction \<Rightarrow> store \<Rightarrow> store option" where
  "ustep cu (AddUser clk nu) st =
     (if now_id clk \<in> set (map user_id (users st)) then None
      else Some (snd (handleAddUser clk cu nu st)))"
| "ustep cu (ClickDelete c u) st =
     (if u \<in> set (users st)
      then (case clickDelete c cu u st of None \<Rightarrow> Some st | Some st' \<Rightarrow> Some st')
      else None)"

fun urun :: "User \<Rightarrow> uaction list \<Rightarrow> store \<Rightarrow> store option" where
  "urun cu [] st = Some st"
| "urun cu (a # as) st = (case ustep cu a st of None \<Rightarrow> None | Some st' \<Rightarrow> urun cu as st')"

section \<open>Sample data\<close>

definition clk0 :: clock where
  "clk0 = \<lparr>now_id = ''1704960000000'', dbTimestamp = ''2024-01-11 08:00:00'',
           isoString = ''2024-01-11T08:00:00.000Z''\<rparr>"

definition user0 :: User where
  "user0 = \<lparr>user_id = ''u1'', name = ''Aminah'', username = ''aminah'',
            email = ''aminah@example.com'', role = admin, password = ''secret''\<rparr>"

definition user1 :: User where
  "user1 = \<lparr>user_id = ''u2'', name = ''Badrul'', username = ''badrul'',
            email = ''badrul@example.com'', role = admin, password = ''secret''\<rparr>"

definition user2 :: User where
  "user2 = \<lparr>user_id = ''u3'', name = ''Chong'', username = ''chong'',
            email = ''chong@example.com'', role = operator, password = ''secret''\<rparr>"

definition od0 :: OffDay where
  "od0 = \<lparr>od_date = ''2024-01-11 00:00:00'', description = ''Thaipusam''\<rparr>"

definition e0 :: ProductionEntry where
  "e0 = \<lparr>entry_id = ''1'', date = ''2024-01-10'', category = ''Healthcare'',
         process = ''Mixing'', productName = ''Gel'', planQuantity = Fin 100,
         actualQuantity = Fin 0, unit = ''KG'', batchNo = None, manpower = None,
         lastUpdatedBy = ''u1'', updatedAt = ''2024-01-09 09:00:00''\<rparr>"

definition e1 :: ProductionEntry where
  "e1 = \<lparr>entry_id = ''2'', date = ''2024-01-12 07:30:00'', category = ''Healthcare'',
         process = ''Foo'', productName = ''Balm'', planQuantity = Fin 5,
         actualQuantity = Fin 4, unit = ''PCS'', batchNo = Some ''B7'', manpower = Some (Fin 3),
         lastUpdatedBy = ''u1'', updatedAt = ''2024-01-09 09:00:00''\<rparr>"

definition st0 :: store where
  "st0 = \<lparr>productionData = [e0, e1], users = [user0, user2], logs = []\<rparr>"

definition modal0 :: modal where
  "modal0 = \<lparr>tab = ActualTab, m_date = ''2024-01-10'', m_category = ''Healthcare'',
             m_process = ''Mixing'', m_productName = ''Gel'', m_quantity = ''80'',
             m_unit = ''KG'', m_manpower = ''4'', m_batchNo = ''B1'',
             selectedPlanId = ''1'', editEntry = None\<rparr>"

definition formData0 :: formData where
  "formData0 = \<lparr>fd_date = ''2024-01-11'', fd_category = ''Healthcare'',
                fd_process = ''Mixing'', fd_productName = ''Gel'', fd_quantity = ''100'',
                fd_unit = ''KG''\<rparr>"


definition PROCESSES0 :: "string list" where
  "PROCESSES0 = [''Mixing'', ''Other'']"

definition e2 :: ProductionEntry where
  "e2 = \<lparr>entry_id = ''3'', date = ''2024-01-15'', category = ''Toiletries'',
         process = ''Mixing'', productName = ''Soap'', planQuantity = Fin 0,
         actualQuantity = Fin 7, unit = ''PCS'', batchNo = None, manpower = None,
         lastUpdatedBy = ''u1'', updatedAt = ''2024-01-09 09:00:00''\<rparr>"

definition odBlank :: OffDay where
  "odBlank = \<lparr>od_date = ''2024-01-13'', description = ''''\<rparr>"

definition odFeb :: OffDay where
  "odFeb = \<lparr>od_date = ''2024-02-01'', description = ''Federal Territory Day''\<rparr>"

definition groups0 :: "dayGroup list" where
  "groups0 = dailyGroups (filteredData (productionData st0) ''Healthcare'')
               [od0, odBlank, odFeb] ''2024-01''"

definition acts0 :: "uaction list" where
  "acts0 = [ClickDelete True user0, AddUser clk0 user1, ClickDelete True user0]"

definition st1 :: store where
  "st1 = \<lparr>productionData = [e0, e1],
           users = [user2, user1\<lparr>user_id := ''1704960000000''\<rparr>],
           logs = [\<lparr>userId = ''u1'', userName = ''Aminah'', action = ''ADD_USER'',
                    details = ''Created new user account: Badrul (admin)''\<rparr>,
                   \<lparr>userId = ''u1'', userName = ''Aminah'', action = ''DELETE_USER'',
                    details = ''Removed user account: Aminah (@aminah)''\<rparr>]\<rparr>"

section \<open>Properties of the entry modal\<close>

lemmas date_defs = normalizedDate_def trim_def split_space_0_def str_or_def is_ws_def

text \<open>
  Claim C10. A new (non-edit) submission in the Actual tab whose date matches an off-day
  of the calendar is rejected before the store is read or written: the result is the
  rejection that names the off-day, the store is the one before the call, the same
  submission in the Plan tab ends in the same way, and the submit button is disabled.
\<close>

theorem off_day_lock_blocks_actual:
  assumes "editEntry m = None" and "tab m = ActualTab"
    and "currentOffDay offDays (m_date m) = Some od"
  shows "handleSubmit clk user offDays m st
           = (Inl (ValidationError (''ENTRY RESTRICTED: Today is '' @ description od)), st)
       \<and> handleSubmit clk user offDays (m\<lparr>tab := PlanTab\<rparr>) st
           = handleSubmit clk user offDays m st
       \<and> submitDisabled False offDays m"
  using assms by (simp add: handleSubmit_def submitDisabled_def)

theorem off_day_lock_blocks_actual_witness:
  "handleSubmit clk0 user0 [od0] (modal0\<lparr>m_date := ''2024-01-11''\<rparr>) st0
     = (Inl (ValidationError ''ENTRY RESTRICTED: Today is Thaipusam''), st0)"
  using off_day_lock_blocks_actual
          [of "modal0\<lparr>m_date := ''2024-01-11''\<rparr>" "[od0]" od0 clk0 user0 st0]
  by (simp add: modal0_def od0_def currentOffDay_def date_defs)

text \<open>
  Claim C2. Creating a plan on a date that is flagged as an off-day must fail with a
  validation error and leave the store as it was. The modal does so: it looks the
  off-day up on normalised dates. The plan page looks it up on the raw dates
  (\<open>od.date === formData.date\<close>), so an off-day that the calendar stores with a time of
  day is not found. With the calendar \<open>[od0]\<close>, whose off-day is stored as
  \<open>2024-01-11 00:00:00\<close>, the modal flags the date \<open>2024-01-11\<close> and rejects the
  plan with the store unchanged, while the plan page finds no off-day for the same date,
  appends the entry and writes a \<open>CREATE_PLAN\<close> line.
\<close>

theorem InputPlan_off_day_not_locked:
  "currentOffDay [od0] ''2024-01-11'' = Some od0
   \<and> handleSubmit clk0 user0 [od0] (modal0\<lparr>tab := PlanTab, m_date := ''2024-01-11''\<rparr>) st0
       = (Inl (ValidationError ''ENTRY RESTRICTED: Today is Thaipusam''), st0)
   \<and> fd_date formData0 = ''2024-01-11''
   \<and> InputPlan_currentOffDay [od0] (fd_date formData0) = None
   \<and> fst (InputPlan_handleSubmit clk0 user0 [od0] formData0 st0) = Inr ()
   \<and> productionData (snd (InputPlan_handleSubmit clk0 user0 [od0] formData0 st0))
       = [e0, e1,
          \<lparr>entry_id = ''1704960000000'', date = ''2024-01-11'', category = ''Healthcare'',
           process = ''Mixing'', productName = ''Gel'', planQuantity = Fin 100,
           actualQuantity = Fin 0, unit = ''KG'', batchNo = None, manpower = None,
           lastUpdatedBy = ''u1'', updatedAt = ''2024-01-11T08:00:00.000Z''\<rparr>]
   \<and> logs (snd (InputPlan_handleSubmit clk0 user0 [od0] formData0 st0))
       = [\<lparr>userId = ''u1'', userName = ''Aminah'', action = ''CREATE_PLAN'',
           details = ''Planned 100 KG for Gel on 2024-01-11''\<rparr>]"
  by code_simp




text \<open>
  Claim C1 says that recording an actual fails with a not-found error when the plan id
  does not resolve in the candidate list of the day. Here the selected id \<open>9\<close> is the id
  of no stored entry: the submission succeeds, the stored entries are unchanged, and a
  \<open>RECORD_ACTUAL\<close> line is logged for the default unit and product name.
\<close>

theorem recordActual_stale_id_counterexample:
  "''9'' \<notin> set (map entry_id (plans (productionData st0) (m_date modal0)))
   \<and> handleSubmit clk0 user0 [od0] (modal0\<lparr>selectedPlanId := ''9''\<rparr>) st0 =
       (Inr (), st0\<lparr>logs := [\<lparr>userId = ''u1'', userName = ''Aminah'',
                 action = ''RECORD_ACTUAL'',
                 details = ''Recorded actual output of 80 KG for product''\<rparr>]\<rparr>)"
  by (simp add: handleSubmit_def currentOffDay_def plans_def date_defs modal0_def st0_def
        e0_def e1_def od0_def user0_def saveProductionData_def addLog_def Let_def)

text \<open>
  Claim C1, as the code has it. For a new submission in the Actual tab on a date that is
  not an off-day: with no plan selected (the empty id) the handler throws "Please select
  a plan" and the store is unchanged; with a selected id the submission succeeds and
  appends one \<open>RECORD_ACTUAL\<close> line to the log, whose text names the quantity typed and
  the unit and product of the first stored entry with the id (\<open>KG\<close> and \<open>product\<close>
  when there is none), every stored entry with another id is unchanged, and every entry
  with the selected id has exactly \<open>actualQuantity\<close>, \<open>batchNo\<close>, \<open>manpower\<close>,
  \<open>lastUpdatedBy\<close> and \<open>updatedAt\<close> overwritten. An id that no stored entry has
  leaves the stored entries as they were.
\<close>

theorem recordActual_effect:
  assumes "editEntry m = None" and "tab m = ActualTab"
    and "currentOffDay offDays (m_date m) = None"
  shows "(selectedPlanId m = [] \<longrightarrow>
            handleSubmit clk user offDays m st = (Inl (Thrown ''Please select a plan''), st))
       \<and> (selectedPlanId m \<noteq> [] \<longrightarrow>
            fst (handleSubmit clk user offDays m st) = Inr ()
          \<and> logs (snd (handleSubmit clk user offDays m st)) =
              logs st @ [\<lparr>userId = user_id user, userName = name user,
                action = ''RECORD_ACTUAL'',
                details = ''Recorded actual output of '' @ m_quantity m @ '' ''
                  @ (case find (\<lambda>p. entry_id p = selectedPlanId m) (productionData st)
                     of None \<Rightarrow> ''KG'' | Some t \<Rightarrow> str_or (unit t) ''KG'')
                  @ '' for ''
                  @ (case find (\<lambda>p. entry_id p = selectedPlanId m) (productionData st)
                     of None \<Rightarrow> ''product'' | Some t \<Rightarrow> str_or (productName t) ''product'')\<rparr>]
          \<and> users (snd (handleSubmit clk user offDays m st)) = users st
          \<and> length (productionData (snd (handleSubmit clk user offDays m st)))
               = length (productionData st)
          \<and> (\<forall>i < length (productionData st).
                (entry_id (productionData st ! i) \<noteq> selectedPlanId m \<longrightarrow>
                   productionData (snd (handleSubmit clk user offDays m st)) ! i
                     = productionData st ! i)
              \<and> (entry_id (productionData st ! i) = selectedPlanId m \<longrightarrow>
                   productionData (snd (handleSubmit clk user offDays m st)) ! i
                     = (productionData st ! i)
                         \<lparr>actualQuantity := parseInt (str_or (m_quantity m) ''0''),
                          batchNo := Some (m_batchNo m),
                          manpower := Some (parseInt (str_or (m_manpower m) ''0'')),
                          lastUpdatedBy := user_id user,
                          updatedAt := dbTimestamp clk\<rparr>))
          \<and> (selectedPlanId m \<notin> set (map entry_id (productionData st)) \<longrightarrow>
               productionData (snd (handleSubmit clk user offDays m st)) = productionData st))"
proof -
  have i: "map (\<lambda>p. if entry_id p = k then recorded clk user m p else p) xs = xs"
    if "k \<notin> set (map entry_id xs)" for k xs
    using that by (induction xs) auto
  show ?thesis
    using assms i [of "selectedPlanId m" "productionData st"]
    by (simp add: handleSubmit_def recorded_def saveProductionData_def addLog_def Let_def)
qed

theorem recordActual_effect_witness:
  "handleSubmit clk0 user0 [od0] (modal0\<lparr>selectedPlanId := []\<rparr>) st0
      = (Inl (Thrown ''Please select a plan''), st0)
   \<and> productionData (snd (handleSubmit clk0 user0 [od0] modal0 st0)) ! 0
      = e0\<lparr>actualQuantity := Fin 80, batchNo := Some ''B1'', manpower := Some (Fin 4),
           lastUpdatedBy := ''u1'', updatedAt := ''2024-01-11 08:00:00''\<rparr>
   \<and> productionData (snd (handleSubmit clk0 user0 [od0] modal0 st0)) ! 1 = e1
   \<and> logs (snd (handleSubmit clk0 user0 [od0] modal0 st0))
      = [\<lparr>userId = ''u1'', userName = ''Aminah'', action = ''RECORD_ACTUAL'',
          details = ''Recorded actual output of 80 KG for Gel''\<rparr>]"
proof -
  let ?m = "modal0\<lparr>selectedPlanId := []\<rparr>"
  have a: "editEntry modal0 = None" "tab modal0 = ActualTab"
    "editEntry ?m = None" "tab ?m = ActualTab"
    by (simp_all add: modal0_def)
  have b: "currentOffDay [od0] (m_date modal0) = None" "currentOffDay [od0] (m_date ?m) = None"
    by (simp_all add: modal0_def od0_def currentOffDay_def date_defs)
  have q: "parseInt (str_or (m_quantity modal0) ''0'') = Fin 80"
    "parseInt (str_or (m_manpower modal0) ''0'') = Fin 4"
    by code_simp+
  have f: "find (\<lambda>p. entry_id p = selectedPlanId modal0) (productionData st0) = Some e0"
    by (simp add: modal0_def st0_def e0_def)
  have s: "selectedPlanId ?m = []" "selectedPlanId modal0 \<noteq> []"
    "entry_id (productionData st0 ! 0) = selectedPlanId modal0"
    "entry_id (productionData st0 ! 1) \<noteq> selectedPlanId modal0"
    "length (productionData st0) = 2" "productionData st0 ! 0 = e0" "productionData st0 ! 1 = e1"
    by (simp_all add: modal0_def st0_def e0_def e1_def)
  have u: "user_id user0 = ''u1''" "dbTimestamp clk0 = ''2024-01-11 08:00:00''"
     "m_batchNo modal0 = ''B1''" "name user0 = ''Aminah''" "m_quantity modal0 = ''80''"
     "logs st0 = []" "str_or (unit e0) ''KG'' = ''KG''"
     "str_or (productName e0) ''product'' = ''Gel''"
    by (simp_all add: user0_def clk0_def modal0_def st0_def e0_def str_or_def)
  note t1 = recordActual_effect [OF a(3) a(4) b(2), of clk0 user0 st0]
  note t2 = recordActual_effect [OF a(1) a(2) b(1), of clk0 user0 st0, unfolded q f]
  from t1 s(1) have r1: "handleSubmit clk0 user0 [od0] ?m st0
      = (Inl (Thrown ''Please select a plan''), st0)"
    by blast
  from t2 s(2) have r2: "\<forall>i < length (productionData st0).
                (entry_id (productionData st0 ! i) \<noteq> selectedPlanId modal0 \<longrightarrow>
                   productionData (snd (handleSubmit clk0 user0 [od0] modal0 st0)) ! i
                     = productionData st0 ! i)
              \<and> (entry_id (productionData st0 ! i) = selectedPlanId modal0 \<longrightarrow>
                   productionData (snd (handleSubmit clk0 user0 [od0] modal0 st0)) ! i
                     = (productionData st0 ! i)
                         \<lparr>actualQuantity := Fin 80,
                          batchNo := Some (m_batchNo modal0),
                          manpower := Some (Fin 4),
                          lastUpdatedBy := user_id user0,
                          updatedAt := dbTimestamp clk0\<rparr>)"
    by blast
  from t2 s(2) have r3: "logs (snd (handleSubmit clk0 user0 [od0] modal0 st0)) =
      logs st0 @ [\<lparr>userId = user_id user0, userName = name user0,
        action = ''RECORD_ACTUAL'',
        details = ''Recorded actual output of '' @ m_quantity modal0 @ '' ''
          @ (case Some e0 of None \<Rightarrow> ''KG'' | Some t \<Rightarrow> str_or (unit t) ''KG'')
          @ '' for ''
          @ (case Some e0 of None \<Rightarrow> ''product''
             | Some t \<Rightarrow> str_or (productName t) ''product'')\<rparr>]"
    by blast
  from r2 [rule_format, of 0] r2 [rule_format, of 1] s(3-7) u r1 r3
  show ?thesis by simp
qed

section \<open>Properties of the dashboard\<close>

lemma map_of_Map_set: "map_of (Map_set k v m) = (map_of m)(k \<mapsto> v)"
  by (induction m) (auto simp: fun_eq_iff)

lemma keys_Map_set:
  "map fst (Map_set k v m) = (if k \<in> fst ` set m then map fst m else map fst m @ [k])"
  by (induction m) auto

lemma keys_set_Map_set: "fst ` set (Map_set k v m) = insert k (fst ` set m)"
  by (induction m) auto

lemma Map_has_map_of: "Map_has k m = (map_of m k \<noteq> None)"
  by (simp add: Map_has_def map_of_eq_None_iff)

lemma addTo_addTo: "addTo p a (addTo p' a' b) = addTo (p' + p) (a' + a) b"
  by (simp add: addTo_def)

lemma addTo_0: "addTo 0 0 b = b"
  by (simp add: addTo_def)

lemma accumulate_plan:
  "selectedMonthPlan (accumulate mo d t) =
     selectedMonthPlan t + (if inMonth mo d then planOf d else 0)"
  by (simp add: accumulate_def inMonth_def planOf_def Let_def)

lemma accumulate_actual:
  "selectedMonthActual (accumulate mo d t) =
     selectedMonthActual t + (if inMonth mo d then actualOf d else 0)"
  by (simp add: accumulate_def inMonth_def actualOf_def Let_def)

lemma accumulate_keys:
  "map fst (selectedMonthProcessMap (accumulate mo d t)) = map fst (selectedMonthProcessMap t)"
  by (simp add: accumulate_def Let_def keys_Map_set Map_has_def)

lemma accumulate_get:
  "map_of (selectedMonthProcessMap (accumulate mo d t)) k =
     map_option (addTo (if inMonth mo d \<and> procNameOf d = k then planOf d else 0)
                       (if inMonth mo d \<and> procNameOf d = k then actualOf d else 0))
       (map_of (selectedMonthProcessMap t) k)"
  by (cases "map_of (selectedMonthProcessMap t) k";
      cases "map_of (selectedMonthProcessMap t) (procNameOf d)")
     (auto simp: accumulate_def Let_def map_of_Map_set Map_has_map_of Map_get_def inMonth_def
        procNameOf_def planOf_def actualOf_def addTo_def)

lemma fold_plan:
  "selectedMonthPlan (fold (accumulate mo) xs t) =
     selectedMonthPlan t + sum_list (map planOf (filter (inMonth mo) xs))"
  by (induction xs arbitrary: t) (simp_all add: accumulate_plan)

lemma fold_actual:
  "selectedMonthActual (fold (accumulate mo) xs t) =
     selectedMonthActual t + sum_list (map actualOf (filter (inMonth mo) xs))"
  by (induction xs arbitrary: t) (simp_all add: accumulate_actual)

lemma fold_keys:
  "map fst (selectedMonthProcessMap (fold (accumulate mo) xs t)) =
     map fst (selectedMonthProcessMap t)"
  by (induction xs arbitrary: t) (simp_all add: accumulate_keys)

lemma fold_get:
  "map_of (selectedMonthProcessMap (fold (accumulate mo) xs t)) k =
     map_option
       (addTo (sum_list (map planOf (filter (\<lambda>d. inMonth mo d \<and> procNameOf d = k) xs)))
              (sum_list (map actualOf (filter (\<lambda>d. inMonth mo d \<and> procNameOf d = k) xs))))
       (map_of (selectedMonthProcessMap t) k)"
proof (induction xs arbitrary: t)
  case Nil
  show ?case by (simp add: addTo_0 option.map_ident cong: option.map_cong)
next
  case (Cons d xs)
  show ?case
    by (simp add: Cons.IH accumulate_get option.map_comp comp_def addTo_addTo)
qed


lemma initProcessMap_zero:
  "initProcessMap P = fold (\<lambda>proc m. Map_set proc (zeroBucket proc) m) P []"
  by (simp add: initProcessMap_def zeroBucket_def)

lemma init_keys_set:
  "fst ` set (fold (\<lambda>p m. Map_set p (z p) m) P m0) = fst ` set m0 \<union> set P"
  by (induction P arbitrary: m0) (simp_all add: keys_set_Map_set)

lemma init_keys_distinct:
  "distinct (map fst m0) \<Longrightarrow> distinct (map fst (fold (\<lambda>p m. Map_set p (z p) m) P m0))"
  by (induction P arbitrary: m0) (auto simp: keys_Map_set)

lemma init_keys_eq:
  "distinct (map fst m0 @ P) \<Longrightarrow>
     map fst (fold (\<lambda>p m. Map_set p (z p) m) P m0) = map fst m0 @ P"
proof (induction P arbitrary: m0)
  case Nil
  show ?case by simp
next
  case (Cons a P)
  from Cons.prems have k: "map fst (Map_set a (z a) m0) = map fst m0 @ [a]"
    by (auto simp: keys_Map_set)
  from Cons.prems have "distinct (map fst (Map_set a (z a) m0) @ P)"
    unfolding k by auto
  from Cons.IH [OF this] show ?case
    by (simp add: k)
qed

lemma init_get:
  "map_of (fold (\<lambda>p m. Map_set p (z p) m) P m0) k =
     (if k \<in> set P then Some (z k) else map_of m0 k)"
  by (induction P arbitrary: m0) (auto simp: map_of_Map_set)

lemma monthTotals_get:
  "map_of (selectedMonthProcessMap (monthTotals P pd cat mo)) k =
     (if k \<in> set P
      then Some \<lparr>process_b = k,
             Plan = sum_list (map planOf (filter (\<lambda>d. procNameOf d = k) (monthEntries pd cat mo))),
             Actual = sum_list (map actualOf
                        (filter (\<lambda>d. procNameOf d = k) (monthEntries pd cat mo)))\<rparr>
      else None)"
proof -
  have f: "filter (\<lambda>d. inMonth mo d \<and> procNameOf d = k) (relevant pd cat)
             = filter (\<lambda>d. procNameOf d = k) (monthEntries pd cat mo)"
    by (simp add: monthEntries_def conj_commute)
  show ?thesis
    by (simp add: monthTotals_def fold_get f initProcessMap_zero init_get addTo_def
          zeroBucket_def)
qed

lemma monthTotals_keys:
  "distinct (map fst (selectedMonthProcessMap (monthTotals P pd cat mo)))"
  "set (map fst (selectedMonthProcessMap (monthTotals P pd cat mo))) = set P"
  "distinct P \<Longrightarrow> map fst (selectedMonthProcessMap (monthTotals P pd cat mo)) = P"
  by (simp_all add: monthTotals_def fold_keys initProcessMap_zero init_keys_distinct
        init_keys_set init_keys_eq)

lemma chartData_bucket:
  assumes "b \<in> set (chartData P pd cat mo)"
  shows "process_b b \<in> set P
       \<and> b = \<lparr>process_b = process_b b,
             Plan = sum_list (map planOf
                      (filter (\<lambda>d. procNameOf d = process_b b) (monthEntries pd cat mo))),
             Actual = sum_list (map actualOf
                      (filter (\<lambda>d. procNameOf d = process_b b) (monthEntries pd cat mo)))\<rparr>"
proof -
  let ?m = "selectedMonthProcessMap (monthTotals P pd cat mo)"
  from assms obtain k where kb: "(k, b) \<in> set ?m"
    by (auto simp: chartData_def Map_values_def)
  with monthTotals_keys(1) [of P pd cat mo] have "map_of ?m k = Some b"
    by simp
  then show ?thesis
    by (auto simp: monthTotals_get split: if_splits)
qed

lemma chartData_names:
  "map process_b (chartData P pd cat mo)
     = map fst (selectedMonthProcessMap (monthTotals P pd cat mo))"
proof -
  let ?m = "selectedMonthProcessMap (monthTotals P pd cat mo)"
  have "process_b (snd kb) = fst kb" if "kb \<in> set ?m" for kb
  proof -
    obtain k b where e: "kb = (k, b)" by (cases kb)
    with that monthTotals_keys(1) [of P pd cat mo] have "map_of ?m k = Some b"
      by simp
    then show ?thesis
      by (auto simp: e monthTotals_get split: if_splits)
  qed
  then show ?thesis
    by (simp add: chartData_def Map_values_def)
qed

text \<open>
  Claim C4 says that an entry whose process name is not a known process is accumulated
  into an "Other" bucket. With the known processes \<open>Mixing\<close> and \<open>Other\<close>, the entry
  \<open>e1\<close> of the month has the unknown process \<open>Foo\<close>, plan 5 and actual 4: the
  \<open>Other\<close> bucket stays at 0 and no bucket holds its quantities.
\<close>

theorem breakdown_drops_unknown_counterexample:
  "chartData PROCESSES0 (productionData st0) ''Healthcare'' ''2024-01''
     = [\<lparr>process_b = ''Mixing'', Plan = 100, Actual = 0\<rparr>,
        \<lparr>process_b = ''Other'', Plan = 0, Actual = 0\<rparr>]
   \<and> e1 \<in> set (monthEntries (productionData st0) ''Healthcare'' ''2024-01'')
   \<and> process e1 = ''Foo'' \<and> planOf e1 = 5 \<and> actualOf e1 = 4"
  by code_simp

text \<open>
  Claim C4, as the code has it. For every list of known processes, entry set, category
  and month, the breakdown has each known process exactly once (in the order of the
  list when the list has no repetition), and the plan and actual of a bucket are the sums
  over the entries of the month whose process name, \<open>Other\<close> standing for an empty
  one, is the name of the bucket. So a process with no entry has plan and actual \<open>0\<close>,
  and an entry whose name is not a known process counts in no bucket.
\<close>

theorem chartData_breakdown:
  "distinct (map process_b (chartData P pd cat mo))
   \<and> set (map process_b (chartData P pd cat mo)) = set P
   \<and> (distinct P \<longrightarrow> map process_b (chartData P pd cat mo) = P)
   \<and> (\<forall>b \<in> set (chartData P pd cat mo).
        Plan b = sum_list (map planOf
                   (filter (\<lambda>d. procNameOf d = process_b b) (monthEntries pd cat mo)))
      \<and> Actual b = sum_list (map actualOf
                   (filter (\<lambda>d. procNameOf d = process_b b) (monthEntries pd cat mo))))"
proof -
  have "Plan b = sum_list (map planOf
                   (filter (\<lambda>d. procNameOf d = process_b b) (monthEntries pd cat mo)))
      \<and> Actual b = sum_list (map actualOf
                   (filter (\<lambda>d. procNameOf d = process_b b) (monthEntries pd cat mo)))"
    if "b \<in> set (chartData P pd cat mo)" for b
    using chartData_bucket [OF that]
    by (metis bucket.select_convs(2) bucket.select_convs(3))
  then show ?thesis
    using monthTotals_keys [of P pd cat mo] by (simp add: chartData_names)
qed

theorem chartData_breakdown_witness:
  "map process_b (chartData PROCESSES0 (productionData st0) ''Healthcare'' ''2024-01'')
     = [''Mixing'', ''Other'']"
proof -
  have d: "distinct PROCESSES0" by (simp add: PROCESSES0_def)
  from chartData_breakdown [of PROCESSES0 "productionData st0" "''Healthcare''" "''2024-01''"] d
  show ?thesis by (simp add: PROCESSES0_def)
qed

text \<open>
  Claim C3. The monthly plan and actual are the sums over the entries of the category in
  the month. When both are nonnegative, the efficiency is computed without a division by
  zero (its value is never the marker \<open>None\<close>), it is nonnegative, it is
  \<open>actual / plan * 100\<close> when the plan is positive, and it is \<open>0\<close> when the plan is
  \<open>0\<close>, whatever the actual. Quotients are exact here, not rounded to doubles.
\<close>

theorem efficiency_guarded:
  assumes "0 \<le> plan (selectedMonthStats P pd cat mo)"
    and "0 \<le> actual (selectedMonthStats P pd cat mo)"
  shows "plan (selectedMonthStats P pd cat mo) = sum_list (map planOf (monthEntries pd cat mo))
     \<and> actual (selectedMonthStats P pd cat mo) = sum_list (map actualOf (monthEntries pd cat mo))
     \<and> (\<exists>e. efficiency (selectedMonthStats P pd cat mo) = Some e \<and> 0 \<le> e
          \<and> (0 < plan (selectedMonthStats P pd cat mo) \<longrightarrow>
               e = real_of_int (actual (selectedMonthStats P pd cat mo))
                     / real_of_int (plan (selectedMonthStats P pd cat mo)) * 100)
          \<and> (plan (selectedMonthStats P pd cat mo) = 0 \<longrightarrow> e = 0))"
proof -
  have m: "filter (inMonth mo) (relevant pd cat) = monthEntries pd cat mo"
    by (simp add: monthEntries_def)
  have p: "plan (selectedMonthStats P pd cat mo) = sum_list (map planOf (monthEntries pd cat mo))"
    and a: "actual (selectedMonthStats P pd cat mo)
              = sum_list (map actualOf (monthEntries pd cat mo))"
    by (simp_all add: selectedMonthStats_def Let_def monthTotals_def fold_plan fold_actual m)
  show ?thesis
    using assms p a
    by (auto simp: selectedMonthStats_def Let_def js_div_def)
qed


theorem efficiency_guarded_witness:
  "efficiency (selectedMonthStats PROCESSES0 (productionData st0) ''Healthcare'' ''2024-01'')
     = Some (4 / 105 * 100)
   \<and> efficiency (selectedMonthStats PROCESSES0 [e2] ''Toiletries'' ''2024-01'') = Some 0"
proof -
  let ?s = "selectedMonthStats PROCESSES0 (productionData st0) ''Healthcare'' ''2024-01''"
  let ?z = "selectedMonthStats PROCESSES0 [e2] ''Toiletries'' ''2024-01''"
  have p: "plan ?s = 105" "actual ?s = 4" "plan ?z = 0" "actual ?z = 7"
    by (simp_all add: selectedMonthStats_def monthTotals_def relevant_def accumulate_def
          st0_def e0_def e1_def e2_def substring0_def trim_def str_or_def is_ws_def Let_def)
  have h: "0 \<le> plan ?s" "0 \<le> actual ?s" "0 \<le> plan ?z" "0 \<le> actual ?z"
    by (simp_all add: p)
  from efficiency_guarded [OF h(1,2)] efficiency_guarded [OF h(3,4)] show ?thesis
    by (auto simp: p)
qed

lemma set_insert_sorted: "set (insert_sorted cmp x xs) = insert x (set xs)"
  by (induction xs) auto

lemma set_js_sort: "set (js_sort cmp xs) = set xs"
  by (induction xs) (simp_all add: js_sort_def set_insert_sorted)

lemma distinct_insert_sorted:
  "distinct (insert_sorted cmp x xs) = (x \<notin> set xs \<and> distinct xs)"
  by (induction xs) (auto simp: set_insert_sorted)

lemma distinct_js_sort: "distinct (js_sort cmp xs) = distinct xs"
proof (induction xs)
  case Nil
  show ?case by (simp add: js_sort_def)
next
  case (Cons x xs)
  have "js_sort cmp (x # xs) = insert_sorted cmp x (js_sort cmp xs)"
    by (simp add: js_sort_def)
  then show ?case
    by (simp add: distinct_insert_sorted set_js_sort Cons.IH)
qed

lemma desc_le: "(localeCompare (str_or b []) (str_or a []) \<le> 0) = (b \<le> a)"
  by (auto simp: localeCompare_def str_or_def)

lemma sorted_insert_sorted:
  assumes "\<And>a b. (cmp a b \<le> 0) = (b \<le> (a :: 'a :: linorder))"
    and "sorted_wrt (\<lambda>a b. b \<le> a) xs"
  shows "sorted_wrt (\<lambda>a b. b \<le> a) (insert_sorted cmp x xs)"
  using assms(2)
proof (induction xs)
  case Nil
  show ?case by simp
next
  case (Cons y ys)
  show ?case
  proof (cases "cmp x y \<le> 0")
    case True
    with assms(1) have "y \<le> x" by simp
    with Cons.prems True show ?thesis by auto
  next
    case False
    with assms(1) have "x \<le> y" by (metis linear)
    with Cons False show ?thesis by (auto simp: set_insert_sorted)
  qed
qed

lemma sorted_js_sort:
  assumes "\<And>a b. (cmp a b \<le> 0) = (b \<le> (a :: 'a :: linorder))"
  shows "sorted_wrt (\<lambda>a b. b \<le> a) (js_sort cmp xs)"
proof (induction xs)
  case Nil
  show ?case by (simp add: js_sort_def)
next
  case (Cons x xs)
  have "js_sort cmp (x # xs) = insert_sorted cmp x (js_sort cmp xs)"
    by (simp add: js_sort_def)
  with sorted_insert_sorted [OF assms Cons.IH] show ?case by simp
qed

lemma strict_desc:
  "sorted_wrt (\<lambda>a b. b \<le> (a :: 'a :: linorder)) xs \<Longrightarrow> distinct xs \<Longrightarrow>
     sorted_wrt (\<lambda>a b. b < a) xs"
  by (induction xs) (auto simp: less_le)

lemma set_fold_Set_add:
  "set (fold (\<lambda>d s. if c d then Set_add (k d) s else s) xs s0)
     = set s0 \<union> k ` {d \<in> set xs. c d}"
  by (induction xs arbitrary: s0) (auto simp: Set_add_def)

lemma distinct_fold_Set_add:
  "distinct s0 \<Longrightarrow> distinct (fold (\<lambda>d s. if c d then Set_add (k d) s else s) xs s0)"
  by (induction xs arbitrary: s0) (auto simp: Set_add_def)

lemma foldl_sum: "foldl (\<lambda>sum e. sum + f e) (a :: int) xs = a + sum_list (map f xs)"
  by (induction xs arbitrary: a) simp_all

lemma filteredEntries_date: "d \<in> set (filteredEntries base mo) \<Longrightarrow> date d \<noteq> []"
  by (simp add: filteredEntries_def)

lemma filteredOffDays_date: "od \<in> set (filteredOffDays offDays mo) \<Longrightarrow> od_date od \<noteq> []"
  by (simp add: filteredOffDays_def)

lemma sortedDates_set:
  "set (sortedDates (filteredEntries base mo) (filteredOffDays offDays mo))
     = (\<lambda>d. dateKeyOf (date d)) ` set (filteredEntries base mo)
       \<union> (\<lambda>od. dateKeyOf (od_date od)) ` set (filteredOffDays offDays mo)"
  using filteredEntries_date [of _ base mo] filteredOffDays_date [of _ offDays mo]
  by (auto simp: sortedDates_def Let_def set_js_sort set_fold_Set_add)

lemma sortedDates_desc: "sorted_wrt (\<lambda>a b. b < a) (sortedDates fe fo)"
proof -
  have "distinct (sortedDates fe fo)"
    by (simp add: sortedDates_def Let_def distinct_js_sort distinct_fold_Set_add)
  moreover have "sorted_wrt (\<lambda>a b. b \<le> a) (sortedDates fe fo)"
    unfolding sortedDates_def Let_def by (rule sorted_js_sort) (rule desc_le)
  ultimately show ?thesis by (rule strict_desc [rotated])
qed

lemma dailyGroups_dates:
  "map date_g (dailyGroups base offDays mo)
     = sortedDates (filteredEntries base mo) (filteredOffDays offDays mo)"
  by (simp add: dailyGroups_def Let_def comp_def)

lemma dailyGroups_group:
  assumes "g \<in> set (dailyGroups base offDays mo)"
  shows "entries g = filter (\<lambda>d. dateKeyOf (date d) = date_g g) (filteredEntries base mo)"
    and "totalActualForDate g = sum_list (map actualOf (entries g))"
    and "isOffDay g
           = (\<exists>od \<in> set (filteredOffDays offDays mo). dateKeyOf (od_date od) = date_g g)"
    and "offDayName g
           = (case find (\<lambda>od. dateKeyOf (od_date od) = date_g g) (filteredOffDays offDays mo)
              of None \<Rightarrow> [] | Some od \<Rightarrow> description od)"
proof -
  let ?fe = "filteredEntries base mo" and ?fo = "filteredOffDays offDays mo"
  have e: "filter (\<lambda>d. date d \<noteq> [] \<and> dateKeyOf (date d) = k) ?fe
             = filter (\<lambda>d. dateKeyOf (date d) = k) ?fe" for k
    by (rule filter_cong) (auto dest: filteredEntries_date)
  have f: "find (\<lambda>od. od_date od \<noteq> [] \<and> dateKeyOf (od_date od) = k) ?fo
             = find (\<lambda>od. dateKeyOf (od_date od) = k) ?fo" for k
    by (rule find_cong) (auto dest: filteredOffDays_date)
  from assms obtain k where g: "g = \<lparr>date_g = k,
      totalActualForDate = foldl (\<lambda>sum entry. sum + num_or0 (actualQuantity entry)) 0
                             (filter (\<lambda>d. dateKeyOf (date d) = k) ?fe),
      entries = filter (\<lambda>d. dateKeyOf (date d) = k) ?fe,
      isOffDay = (find (\<lambda>od. dateKeyOf (od_date od) = k) ?fo \<noteq> None),
      offDayName = (case find (\<lambda>od. dateKeyOf (od_date od) = k) ?fo of None \<Rightarrow> []
                    | Some od \<Rightarrow> str_or (description od) [])\<rparr>"
    by (auto simp: dailyGroups_def Let_def e f)
  show "entries g = filter (\<lambda>d. dateKeyOf (date d) = date_g g) ?fe"
    by (simp add: g)
  show "totalActualForDate g = sum_list (map actualOf (entries g))"
    by (simp add: g foldl_sum actualOf_def [abs_def])
  show "isOffDay g = (\<exists>od \<in> set ?fo. dateKeyOf (od_date od) = date_g g)"
    by (auto simp: g find_None_iff)
  show "offDayName g = (case find (\<lambda>od. dateKeyOf (od_date od) = date_g g) ?fo
                        of None \<Rightarrow> [] | Some od \<Rightarrow> description od)"
    by (simp add: g str_or_def split: option.splits)
qed

lemma filteredEntries_filteredData:
  "set (filteredEntries (filteredData pd cat) mo)
     = {d \<in> set pd. category d = cat \<and> date d \<noteq> [] \<and> startsWith (trim (date d)) mo}"
  by (auto simp: filteredEntries_def filteredData_def set_js_sort relevant_def)

text \<open>
  Claim C5. The day groups of a month have exactly the distinct keys (the first ten
  characters of the trimmed date) of the entries and off-days of that month, in strictly
  descending order. Each group carries the entries with its key, the sum of their
  actuals, the off-day flag, which says that an off-day has the key, and the description
  of the first such off-day. An off-day whose key no entry has appears as a group with no
  entry and the flag set. The entries of the month are those of the category with a
  nonempty date whose trimmed date starts with the month, and the off-days of the month
  are those of the calendar with a nonempty date whose trimmed date starts with the
  month.
\<close>

theorem dailyGroups_by_day:
  assumes "gs = dailyGroups base offDays mo"
    and "fe = filteredEntries base mo" and "fo = filteredOffDays offDays mo"
  shows "sorted_wrt (\<lambda>a b. b < a) (map date_g gs)
     \<and> set (map date_g gs)
         = (\<lambda>d. dateKeyOf (date d)) ` set fe \<union> (\<lambda>od. dateKeyOf (od_date od)) ` set fo
     \<and> (\<forall>g \<in> set gs.
           entries g = filter (\<lambda>d. dateKeyOf (date d) = date_g g) fe
         \<and> totalActualForDate g = sum_list (map actualOf (entries g))
         \<and> isOffDay g = (\<exists>od \<in> set fo. dateKeyOf (od_date od) = date_g g)
         \<and> offDayName g = (case find (\<lambda>od. dateKeyOf (od_date od) = date_g g) fo
                           of None \<Rightarrow> [] | Some od \<Rightarrow> description od))
     \<and> (\<forall>od \<in> set fo. (\<forall>d \<in> set fe. dateKeyOf (date d) \<noteq> dateKeyOf (od_date od)) \<longrightarrow>
           (\<exists>g \<in> set gs. date_g g = dateKeyOf (od_date od) \<and> entries g = [] \<and> isOffDay g))
     \<and> set fe = {d \<in> set base. date d \<noteq> [] \<and> startsWith (trim (date d)) mo}
     \<and> set fo = {od \<in> set offDays. od_date od \<noteq> [] \<and> startsWith (trim (od_date od)) mo}
     \<and> set (filteredEntries (filteredData pd cat) mo)
         = {d \<in> set pd. category d = cat \<and> date d \<noteq> [] \<and> startsWith (trim (date d)) mo}"
proof -
  have m: "set fe = {d \<in> set base. date d \<noteq> [] \<and> startsWith (trim (date d)) mo}"
    "set fo = {od \<in> set offDays. od_date od \<noteq> [] \<and> startsWith (trim (od_date od)) mo}"
    by (simp_all add: assms filteredEntries_def filteredOffDays_def)
  have a: "sorted_wrt (\<lambda>a b. b < a) (map date_g gs)"
    by (simp add: assms(1) dailyGroups_dates sortedDates_desc)
  have b: "set (map date_g gs)
         = (\<lambda>d. dateKeyOf (date d)) ` set fe \<union> (\<lambda>od. dateKeyOf (od_date od)) ` set fo"
    unfolding assms dailyGroups_dates by (rule sortedDates_set)
  have c: "entries g = filter (\<lambda>d. dateKeyOf (date d) = date_g g) fe
         \<and> totalActualForDate g = sum_list (map actualOf (entries g))
         \<and> isOffDay g = (\<exists>od \<in> set fo. dateKeyOf (od_date od) = date_g g)
         \<and> offDayName g = (case find (\<lambda>od. dateKeyOf (od_date od) = date_g g) fo
                           of None \<Rightarrow> [] | Some od \<Rightarrow> description od)"
    if "g \<in> set gs" for g
    using dailyGroups_group [OF that [unfolded assms(1)]] unfolding assms by blast
  have d: "\<exists>g \<in> set gs. date_g g = dateKeyOf (od_date od) \<and> entries g = [] \<and> isOffDay g"
    if od: "od \<in> set fo" and no: "\<forall>d \<in> set fe. dateKeyOf (date d) \<noteq> dateKeyOf (od_date od)"
    for od
  proof -
    from od b have "dateKeyOf (od_date od) \<in> set (map date_g gs)" by blast
    then obtain g where g: "g \<in> set gs" "date_g g = dateKeyOf (od_date od)" by auto
    from c [OF g(1)] no od have "entries g = []" "isOffDay g"
      by (auto simp: g(2) filter_empty_conv)
    with g show ?thesis by blast
  qed
  from a b c d m show ?thesis
    by (simp only: filteredEntries_filteredData) blast
qed

theorem dailyGroups_by_day_witness:
  "sorted_wrt (\<lambda>a b. b < a) (map date_g groups0)
   \<and> set (map date_g groups0) = {''2024-01-13'', ''2024-01-12'', ''2024-01-11'', ''2024-01-10''}
   \<and> (\<exists>g \<in> set groups0. date_g g = ''2024-01-11'' \<and> entries g = [] \<and> isOffDay g)"
proof -
  let ?base = "filteredData (productionData st0) ''Healthcare''"
  have fe: "filteredEntries ?base ''2024-01'' = [e1, e0]"
    and fo: "filteredOffDays [od0, odBlank, odFeb] ''2024-01'' = [od0, odBlank]"
    by code_simp+
  have k: "dateKeyOf (date e1) = ''2024-01-12''" "dateKeyOf (date e0) = ''2024-01-10''"
    "dateKeyOf (od_date od0) = ''2024-01-11''" "dateKeyOf (od_date odBlank) = ''2024-01-13''"
    by code_simp+
  note t = dailyGroups_by_day [OF groups0_def fe [symmetric] fo [symmetric]]
  from t have "\<forall>od \<in> set [od0, odBlank].
      (\<forall>d \<in> set [e1, e0]. dateKeyOf (date d) \<noteq> dateKeyOf (od_date od)) \<longrightarrow>
      (\<exists>g \<in> set groups0. date_g g = dateKeyOf (od_date od) \<and> entries g = [] \<and> isOffDay g)"
    by blast
  then have "\<exists>g \<in> set groups0. date_g g = ''2024-01-11'' \<and> entries g = [] \<and> isOffDay g"
    by (simp add: k)
  moreover from t have "sorted_wrt (\<lambda>a b. b < a) (map date_g groups0)"
    by blast
  moreover from t have "set (map date_g groups0)
      = (\<lambda>d. dateKeyOf (date d)) ` set [e1, e0] \<union> (\<lambda>od. dateKeyOf (od_date od)) ` set [od0, odBlank]"
    by blast
  then have "set (map date_g groups0)
      = {''2024-01-13'', ''2024-01-12'', ''2024-01-11'', ''2024-01-10''}"
    by (auto simp: k)
  ultimately show ?thesis by blast
qed

lemma show_nat_0: "show_nat 0 = ''0''"
  by (simp add: show_nat.simps)

lemma groupLines_cases:
  "groupLines g =
     (if entries g = []
      then [date_g g @ '','' @ str_or (offDayName g) ''Off Day'' @ '',-,-,0,0,-,-,0'']
      else map (entryLine g) (entries g))"
  by (auto simp: groupLines_def groupRows_def entryLine_def show_nat_0 split: option.splits)

text \<open>
  Claim C9 says that the placeholder row of a day group without entries shows the holiday
  name or "-". For an off-day with an empty description the status column shows
  \<open>Off Day\<close>.
\<close>

theorem csv_placeholder_counterexample:
  "csvLines (dailyGroups [] [odBlank] ''2024-01'')
     = [''Date,Status,Process,Product,Plan,Actual,Unit,Batch No,Manpower'',
        ''2024-01-13,Off Day,-,-,0,0,-,-,0'']
   \<and> csvLines (dailyGroups [] [odBlank] ''2024-01'')
     \<noteq> [''Date,Status,Process,Product,Plan,Actual,Unit,Batch No,Manpower'',
        ''2024-01-13,-,-,-,0,0,-,-,0'']"
  by code_simp

text \<open>
  Claim C9, as the code has it. The export is the data-URI prefix followed by the lines
  joined by newlines: the header line \<open>Date,Status,Process,Product,Plan,Actual,Unit,Batch
  No,Manpower\<close>, then the lines of each day group in order. A group without entries gives
  one placeholder line: its date, the holiday name or \<open>Off Day\<close> when the name is empty,
  \<open>-\<close> for process, product, unit and batch, and \<open>0\<close> for plan, actual and manpower.
  A group with entries gives one line for each entry.
\<close>

theorem csv_rows:
  "csvContent groups = ''data:text/csv;charset=utf-8,'' @ join [CHR 0x0A] (csvLines groups)
   \<and> csvLines groups = ''Date,Status,Process,Product,Plan,Actual,Unit,Batch No,Manpower''
        # concat (map groupLines groups)
   \<and> (entries g = [] \<longrightarrow>
        groupLines g
          = [date_g g @ '','' @ str_or (offDayName g) ''Off Day'' @ '',-,-,0,0,-,-,0''])
   \<and> (entries g \<noteq> [] \<longrightarrow> groupLines g = map (entryLine g) (entries g))"
proof -
  have "map (\<lambda>r. join '','' (map cell_text r)) (concat (map groupRows groups))
          = concat (map groupLines groups)"
    by (simp add: map_concat comp_def groupLines_def [abs_def])
  then show ?thesis
    by (simp add: csvContent_def csvLines_def headers_def groupLines_cases)
qed

theorem csv_rows_witness:
  "csvLines groups0
     = [''Date,Status,Process,Product,Plan,Actual,Unit,Batch No,Manpower'',
        ''2024-01-13,Off Day,-,-,0,0,-,-,0'',
        ''2024-01-12 07:30:00,Normal,Foo,Balm,5,4,PCS,B7,3'',
        ''2024-01-11,Thaipusam,-,-,0,0,-,-,0'',
        ''2024-01-10,Normal,Mixing,Gel,100,0,KG,,'']"
proof -
  have "concat (map groupLines groups0)
     = [''2024-01-13,Off Day,-,-,0,0,-,-,0'',
        ''2024-01-12 07:30:00,Normal,Foo,Balm,5,4,PCS,B7,3'',
        ''2024-01-11,Thaipusam,-,-,0,0,-,-,0'',
        ''2024-01-10,Normal,Mixing,Gel,100,0,KG,,'']"
    by code_simp
  with csv_rows [of groups0] show ?thesis by simp
qed

section \<open>Date normalisation\<close>

text \<open>
  Claim C7 says that the value compared and stored is the trimmed input cut to its first
  ten characters. The modal stores a date with an ISO time-of-day suffix whole, since it
  cuts at the first space only.
\<close>

theorem date_cut_counterexample:
  "normalizedDate ''2024-01-10T08:30:00'' = ''2024-01-10T08:30:00''
   \<and> take 10 (trim ''2024-01-10T08:30:00'') = ''2024-01-10''
   \<and> map date (productionData (snd (handleSubmit clk0 user0 [od0]
          (modal0\<lparr>tab := PlanTab, m_date := ''2024-01-10T08:30:00''\<rparr>) st0)))
       = [''2024-01-10'', ''2024-01-12 07:30:00'', ''2024-01-10T08:30:00'']"
  by code_simp

lemma takeWhile_take: "length (takeWhile P xs) = n \<Longrightarrow> takeWhile P xs = take n xs"
  by (metis takeWhile_eq_take)

lemma sortedDates_sub:
  "set (sortedDates (filteredEntries base mo) (filteredOffDays offDays mo))
     \<subseteq> dateKeyOf ` (date ` set base \<union> od_date ` set offDays)"
  unfolding sortedDates_set by (auto simp: filteredEntries_def filteredOffDays_def)

text \<open>
  Claim C7, as the code has it. The modal normalises a date to its trimmed text before the
  first space: a new plan is stored with that value, an edited entry gets it, and the
  off-day lookup compares the values so normalised. The dashboard keys the days by the
  first ten characters of the trimmed date. The two values agree whenever the text before
  the first space has ten characters, as for a \<open>YYYY-MM-DD\<close> date alone or followed by a
  space and a time of day.
\<close>

theorem date_normalization:
  "normalizedDate d = takeWhile (\<lambda>c. c \<noteq> CHR '' '') (trim d)
   \<and> dateKeyOf d = take 10 (trim d)
   \<and> (length (normalizedDate d) = 10 \<longrightarrow> normalizedDate d = dateKeyOf d)
   \<and> (editEntry m = None \<and> tab m = PlanTab \<and> currentOffDay offDays (m_date m) = None \<longrightarrow>
        map date (productionData (snd (handleSubmit clk user offDays m st)))
          = map date (productionData st) @ [normalizedDate (m_date m)])
   \<and> (editEntry m = Some e \<longrightarrow>
        (\<forall>p \<in> set (productionData (snd (handleSubmit clk user offDays m st))).
           entry_id p = entry_id e \<longrightarrow> date p = normalizedDate (m_date m)))
   \<and> (currentOffDay offDays d \<noteq> None)
        = (\<exists>od \<in> set offDays. normalizedDate (od_date od) = normalizedDate d)
   \<and> set (map date_g (dailyGroups base offDays mo))
        \<subseteq> dateKeyOf ` (date ` set base \<union> od_date ` set offDays)"
proof -
  have a: "normalizedDate d = takeWhile (\<lambda>c. c \<noteq> CHR '' '') (trim d)"
    by (simp add: normalizedDate_def split_space_0_def str_or_def)
  have b: "dateKeyOf d = take 10 (trim d)"
    by (simp add: dateKeyOf_def substring0_def)
  have c: "normalizedDate d = dateKeyOf d" if "length (normalizedDate d) = 10"
    using that unfolding a b by (rule takeWhile_take)
  have s: "map date (productionData (snd (handleSubmit clk user offDays m st)))
          = map date (productionData st) @ [normalizedDate (m_date m)]"
    if "editEntry m = None \<and> tab m = PlanTab \<and> currentOffDay offDays (m_date m) = None"
    using that by (simp add: handleSubmit_def saveProductionData_def addLog_def Let_def)
  have e: "date p = normalizedDate (m_date m)"
    if "editEntry m = Some e" "p \<in> set (productionData (snd (handleSubmit clk user offDays m st)))"
      "entry_id p = entry_id e" for p
    using that
    by (auto simp: handleSubmit_def saveProductionData_def addLog_def edited_def Let_def
          split: if_splits)
  have f: "(currentOffDay offDays d \<noteq> None)
        = (\<exists>od \<in> set offDays. normalizedDate (od_date od) = normalizedDate d)"
    by (auto simp: currentOffDay_def Let_def find_None_iff)
  have g: "set (map date_g (dailyGroups base offDays mo))
        \<subseteq> dateKeyOf ` (date ` set base \<union> od_date ` set offDays)"
    unfolding dailyGroups_dates by (rule sortedDates_sub)
  from a b c s e f g show ?thesis by blast
qed

theorem date_normalization_witness:
  "length (normalizedDate '' 2024-01-10 08:30:00'') = 10
   \<and> normalizedDate '' 2024-01-10 08:30:00'' = dateKeyOf '' 2024-01-10 08:30:00''
   \<and> dateKeyOf '' 2024-01-10 08:30:00'' = ''2024-01-10''"
proof -
  have l: "length (normalizedDate '' 2024-01-10 08:30:00'') = 10"
    and k: "dateKeyOf '' 2024-01-10 08:30:00'' = ''2024-01-10''"
    by code_simp+
  from date_normalization [of "'' 2024-01-10 08:30:00''"] l k show ?thesis
    by blast
qed

section \<open>Properties of the user page\<close>

lemma other_admin:
  assumes "1 < adminCount us" and "distinct us"
  shows "\<exists>a \<in> set us. role a = admin \<and> a \<noteq> u"
proof (rule ccontr)
  assume "\<not> (\<exists>a \<in> set us. role a = admin \<and> a \<noteq> u)"
  then have "set (filter (\<lambda>x. role x = admin) us) \<subseteq> {u}" by auto
  then have "card (set (filter (\<lambda>x. role x = admin) us)) \<le> card {u}"
    by (intro card_mono) auto
  moreover have "card (set (filter (\<lambda>x. role x = admin) us)) = adminCount us"
    using assms(2) by (metis adminCount_def distinct_card distinct_filter)
  ultimately show False using assms(1) by simp
qed

lemma same_id:
  "distinct (map user_id us) \<Longrightarrow> a \<in> set us \<Longrightarrow> u \<in> set us \<Longrightarrow>
     (user_id a = user_id u) = (a = u)"
  by (auto simp: distinct_map inj_on_def)

lemma adminCount_pos: "(1 \<le> adminCount us) = (\<exists>a \<in> set us. role a = admin)"
  by (auto simp: adminCount_def Suc_le_eq filter_empty_conv)

lemma adminCount_posI: "a \<in> set us \<Longrightarrow> role a = admin \<Longrightarrow> 1 \<le> adminCount us"
  unfolding adminCount_pos by blast

lemma users_handleDelete:
  "users (handleDelete c cu i st) = (if c then filter (\<lambda>u. user_id u \<noteq> i) (users st) else users st)"
  by (simp add: handleDelete_def saveUsers_def addLog_def Let_def)

lemma users_handleAddUser:
  "users (snd (handleAddUser clk cu nu st)) = users st
   \<or> users (snd (handleAddUser clk cu nu st)) = users st @ [nu\<lparr>user_id := now_id clk\<rparr>]"
  by (simp add: handleAddUser_def saveUsers_def addLog_def Let_def)

lemma delete_keeps_admin:
  assumes d: "distinct (map user_id us)" and u: "u \<in> set us" and n: "\<not> deleteDisabled us u"
    and a: "1 \<le> adminCount us"
  shows "1 \<le> adminCount (filter (\<lambda>x. user_id x \<noteq> user_id u) us)"
proof (cases "role u = admin")
  case True
  with n have "1 < adminCount us" by (simp add: deleteDisabled_def adminCount_def)
  moreover from d have "distinct us" by (simp add: distinct_map)
  ultimately obtain b where b: "b \<in> set us" "role b = admin" "b \<noteq> u"
    using other_admin by blast
  with same_id [OF d b(1) u] have "user_id b \<noteq> user_id u" by simp
  with b show ?thesis by (intro adminCount_posI [of b]) simp_all
next
  case False
  from a obtain b where b: "b \<in> set us" "role b = admin"
    unfolding adminCount_pos by blast
  with False have "b \<noteq> u" by auto
  with same_id [OF d b(1) u] have "user_id b \<noteq> user_id u" by simp
  with b show ?thesis by (intro adminCount_posI [of b]) simp_all
qed

lemma ustep_inv:
  assumes "ustep cu a st = Some st'"
    and "distinct (map user_id (users st))" and "1 \<le> adminCount (users st)"
  shows "distinct (map user_id (users st')) \<and> 1 \<le> adminCount (users st')"
proof (cases a)
  case (AddUser clk nu)
  with assms(1) have f: "now_id clk \<notin> set (map user_id (users st))"
    and s: "st' = snd (handleAddUser clk cu nu st)"
    by (auto split: if_splits)
  from users_handleAddUser [of clk cu nu st] show ?thesis
  proof
    assume "users (snd (handleAddUser clk cu nu st)) = users st"
    with assms(2,3) s show ?thesis by simp
  next
    assume "users (snd (handleAddUser clk cu nu st)) = users st @ [nu\<lparr>user_id := now_id clk\<rparr>]"
    with assms(2,3) s f show ?thesis by (auto simp: adminCount_def)
  qed
next
  case (ClickDelete c u)
  with assms(1) have u: "u \<in> set (users st)" by (auto split: if_splits)
  show ?thesis
  proof (cases "deleteDisabled (users st) u \<or> \<not> c")
    case True
    with assms ClickDelete u have "users st' = users st"
      by (auto simp: clickDelete_def users_handleDelete split: if_splits)
    with assms(2,3) show ?thesis by simp
  next
    case False
    with assms(1) ClickDelete u
    have "users st' = filter (\<lambda>x. user_id x \<noteq> user_id u) (users st)"
      by (auto simp: clickDelete_def users_handleDelete split: if_splits)
    with assms(2) delete_keeps_admin [OF assms(2) u _ assms(3)] False show ?thesis
      by (simp add: distinct_map_filter)
  qed
qed

lemma urun_inv:
  "urun cu acts s0 = Some st \<Longrightarrow> distinct (map user_id (users s0)) \<Longrightarrow>
     1 \<le> adminCount (users s0) \<Longrightarrow>
     distinct (map user_id (users st)) \<and> 1 \<le> adminCount (users st)"
proof (induction acts arbitrary: s0)
  case Nil
  then show ?case by simp
next
  case (Cons a acts)
  from Cons.prems(1) obtain st1 where s: "ustep cu a s0 = Some st1" "urun cu acts st1 = Some st"
    by (auto split: option.splits)
  from ustep_inv [OF s(1) Cons.prems(2,3)] Cons.IH [OF s(2)] show ?case by blast
qed

text \<open>
  Claim C8. From a user list with pairwise distinct ids and at least one admin, every run
  of the user page ends in a list with at least one admin. In such a list, the delete
  button of an admin who is the only admin is disabled, so the click is rejected, and the
  confirmed deletion of an admin succeeds when there is another admin: that user, and no
  other, is removed, and an admin remains.
\<close>

theorem last_admin_protected:
  assumes "urun cu acts s0 = Some st"
    and "distinct (map user_id (users s0))" and "1 \<le> adminCount (users s0)"
  shows "1 \<le> adminCount (users st)
     \<and> (\<forall>u \<in> set (users st). role u = admin \<longrightarrow>
          (adminCount (users st) \<le> 1 \<longrightarrow> clickDelete c cu u st = None)
        \<and> (1 < adminCount (users st) \<longrightarrow>
             (\<exists>st'. clickDelete True cu u st = Some st'
                  \<and> set (users st') = set (users st) - {u}
                  \<and> 1 \<le> adminCount (users st'))))"
proof -
  from urun_inv [OF assms] have d: "distinct (map user_id (users st))"
    and a: "1 \<le> adminCount (users st)" by simp_all
  have r: "clickDelete c cu u st = None"
    if "role u = admin" "adminCount (users st) \<le> 1" for u
    using that by (simp add: clickDelete_def deleteDisabled_def adminCount_def)
  have s: "\<exists>st'. clickDelete True cu u st = Some st'
                  \<and> set (users st') = set (users st) - {u}
                  \<and> 1 \<le> adminCount (users st')"
    if u: "u \<in> set (users st)" and "role u = admin" and m: "1 < adminCount (users st)" for u
  proof -
    from m have n: "\<not> deleteDisabled (users st) u"
      by (simp add: deleteDisabled_def adminCount_def)
    have "set (filter (\<lambda>x. user_id x \<noteq> user_id u) (users st)) = set (users st) - {u}"
      using same_id [OF d _ u] by auto
    with n delete_keeps_admin [OF d u n a] show ?thesis
      by (simp add: clickDelete_def users_handleDelete)
  qed
  from a r s show ?thesis by blast
qed

theorem last_admin_protected_witness:
  "urun user0 acts0 st0 = Some st1 \<and> 1 \<le> adminCount (users st1)
   \<and> clickDelete True user0 (user1\<lparr>user_id := ''1704960000000''\<rparr>) st1 = None"
proof -
  have r: "urun user0 acts0 st0 = Some st1"
    by code_simp
  have d: "distinct (map user_id (users st0))" and a: "1 \<le> adminCount (users st0)"
    by code_simp+
  have u: "user1\<lparr>user_id := ''1704960000000''\<rparr> \<in> set (users st1)"
    "role (user1\<lparr>user_id := ''1704960000000''\<rparr>) = admin" "adminCount (users st1) \<le> 1"
    by code_simp+
  from last_admin_protected [OF r d a, of True] u r show ?thesis
    by blast
qed

end
